theory Spec2Isabelle
  imports Complex_Main "HOL-Library.Sublist" "HOL-Library.Word" "HOL-Library.Log_Nat"
begin

section \<open>The x402 facilitator: verify, settle, supported\<close>

text \<open>
  A shallow embedding of \<^verbatim>\<open>x402-facilitator/src/server.ts\<close>: the three route handlers
  \<^verbatim>\<open>POST /verify\<close>, \<^verbatim>\<open>POST /settle\<close> and \<^verbatim>\<open>GET /supported\<close>, the configuration they
  read, and the JavaScript built-ins they call (\<^verbatim>\<open>parseFloat\<close>, \<^verbatim>\<open>isNaN\<close>,
  \<^verbatim>\<open>String.prototype.replace\<close>, \<^verbatim>\<open>JSON.stringify\<close> as used by \<^verbatim>\<open>res.json\<close>).

  Conventions.
  \<^item> Request payloads are modelled at the declared type \<^verbatim>\<open>X402PaymentPayload\<close>. The
    two properties that the handlers test for presence, \<^verbatim>\<open>transaction\<close> and
    \<^verbatim>\<open>metadata\<close>, are options: \<open>None\<close> when the JSON body leaves the property out.
  \<^item> A JavaScript string is a \<open>string\<close> whose characters are code units below 256.
  \<^item> Exceptions and rejected promises are \<open>Inl\<close> values of type \<open>js_error + 'a\<close>.
  \<^item> The external collaborators (the \<^verbatim>\<open>@solana/web3.js\<close> parsers, the base64 decoder of
    \<^verbatim>\<open>Buffer.from\<close>, the \<^verbatim>\<open>KoraClient\<close> methods and \<^verbatim>\<open>process.env\<close>) are fields of an
    environment record; every call to a parser or to the relay client is recorded, in
    program order, in a trace of events.
  \<^item> \<^verbatim>\<open>await\<close> is sequential composition. Console output is not modelled.
\<close>

subsection \<open>JavaScript numbers\<close>

text \<open>
  A Number is NaN, an infinity, or a finite double, kept as the rational it denotes.
  The two zeros are both \<open>Finite 0\<close>: the handlers only compare numbers, and
  \<^verbatim>\<open>-0 <= 0\<close> and \<^verbatim>\<open>0 <= 0\<close> are both true.
\<close>

datatype number = NaN | PosInfinity | NegInfinity | Finite rat

definition pow2 :: "int \<Rightarrow> rat" where
  "pow2 k = (if 0 \<le> k then 2 ^ nat k else 1 / 2 ^ nat (- k))"

text \<open>For \<open>q > 0\<close>, the exponent \<open>e\<close> with \<open>2^e \<le> q < 2^(e+1)\<close>.\<close>

definition binade :: "rat \<Rightarrow> int" where
  "binade q =
     (let (a, b) = quotient_of q;
          d = bitlen a - bitlen b
      in if pow2 d \<le> q then d else d - 1)"

definition round_half_even :: "rat \<Rightarrow> int" where
  "round_half_even x =
     (let f = \<lfloor>x\<rfloor>; d = x - of_int f
      in if d < 1 / 2 then f
         else if 1 / 2 < d then f + 1
         else if even f then f else f + 1)"

text \<open>
  ``The Number value for \<open>x\<close>'' of ECMAScript: round to the nearest double, ties to the
  even significand, and to an infinity from \<open>2^1024\<close> on.
\<close>

definition number_value :: "rat \<Rightarrow> number" where
  "number_value x =
     (if x = 0 then Finite 0
      else let m = \<bar>x\<bar>;
               e = max (binade m) (- 1022);
               ulp = pow2 (e - 52);
               r = of_int (round_half_even (m / ulp)) * ulp
           in if pow2 1024 \<le> r then (if x < 0 then NegInfinity else PosInfinity)
              else Finite (if x < 0 then - r else r))"

text \<open>The relational operator \<^verbatim>\<open><=\<close> on Numbers: false as soon as an operand is NaN.\<close>

fun number_le :: "number \<Rightarrow> number \<Rightarrow> bool" where
  "number_le NaN _ = False"
| "number_le _ NaN = False"
| "number_le NegInfinity _ = True"
| "number_le _ PosInfinity = True"
| "number_le PosInfinity _ = False"
| "number_le _ NegInfinity = False"
| "number_le (Finite a) (Finite b) = (a \<le> b)"

definition isNaN :: "number \<Rightarrow> bool" where
  "isNaN x = (x = NaN)"

subsection \<open>parseFloat\<close>

definition isWhiteSpace :: "char \<Rightarrow> bool" where
  "isWhiteSpace c = ((of_char c :: nat) \<in> {9, 10, 11, 12, 13, 32, 160})"

definition isDigit :: "char \<Rightarrow> bool" where
  "isDigit c = (48 \<le> (of_char c :: nat) \<and> (of_char c :: nat) \<le> 57)"

definition digits_value :: "string \<Rightarrow> int" where
  "digits_value ds = foldl (\<lambda>n c. 10 * n + (of_char c - 48)) 0 ds"

definition pow10 :: "int \<Rightarrow> rat" where
  "pow10 k = (if 0 \<le> k then 10 ^ nat k else 1 / 10 ^ nat (- k))"

text \<open>
  The optional exponent part: \<^verbatim>\<open>e\<close> or \<^verbatim>\<open>E\<close>, an optional sign, and at least one digit.
  Without a digit the exponent indicator is not part of the literal.
\<close>

definition exponent_part :: "string \<Rightarrow> int" where
  "exponent_part r =
     (case r of
        [] \<Rightarrow> 0
      | c # r' \<Rightarrow>
          if c = CHR ''e'' \<or> c = CHR ''E'' then
            (let (neg, r'') =
                   (case r' of
                      [] \<Rightarrow> (False, r')
                    | s # t \<Rightarrow> if s = CHR ''-'' then (True, t)
                               else if s = CHR ''+'' then (False, t) else (False, r'));
                 ds = takeWhile isDigit r''
             in if ds = [] then 0
                else if neg then - digits_value ds else digits_value ds)
          else 0)"

text \<open>
  \<^verbatim>\<open>parseFloat\<close> on a string: leading white space is dropped, the longest prefix that is a
  \<^verbatim>\<open>StrDecimalLiteral\<close> is read (a sign, then \<^verbatim>\<open>Infinity\<close> or decimal digits with an
  optional fraction and exponent), and the result is the Number value of what was read;
  NaN when no prefix is a literal. (For literals of more than 20 significant digits
  ECMAScript lets an engine round the digits after the 20th; the model rounds exactly.)
\<close>

definition parseFloat :: "string \<Rightarrow> number" where
  "parseFloat s =
     (let t = dropWhile isWhiteSpace s;
          (neg, u) =
            (case t of
               [] \<Rightarrow> (False, t)
             | c # r \<Rightarrow> if c = CHR ''-'' then (True, r)
                        else if c = CHR ''+'' then (False, r) else (False, t))
      in if prefix ''Infinity'' u then (if neg then NegInfinity else PosInfinity)
         else
           let ip = takeWhile isDigit u;
               r1 = dropWhile isDigit u;
               dot = (r1 \<noteq> [] \<and> hd r1 = CHR ''.'');
               fp = (if dot then takeWhile isDigit (tl r1) else []);
               r2 = (if dot then dropWhile isDigit (tl r1) else r1)
           in if ip = [] \<and> fp = [] then NaN
              else
                let mv = of_int (digits_value (ip @ fp)) / 10 ^ length fp
                           * pow10 (exponent_part r2)
                in number_value (if neg then - mv else mv))"

subsection \<open>String.prototype.replace with a string pattern\<close>

text \<open>
  \<^verbatim>\<open>s.replace(pat, rep)\<close> with a string pattern replaces the first occurrence of \<open>pat\<close>
  in \<open>s\<close>, wherever it is, and leaves \<open>s\<close> unchanged when there is none. (The code only
  passes the replacement \<^verbatim>\<open>''\<close>, which has no \<^verbatim>\<open>$\<close> pattern.)
\<close>

fun replace :: "string \<Rightarrow> string \<Rightarrow> string \<Rightarrow> string" where
  "replace pat rep [] = (if pat = [] then rep else [])"
| "replace pat rep (c # cs) =
     (if prefix pat (c # cs) then rep @ drop (length pat) (c # cs)
      else c # replace pat rep cs)"

subsection \<open>JSON values and responses\<close>

datatype json =
    JUndefined
  | JNull
  | JBool bool
  | JNumber number
  | JString string
  | JArray "json list"
  | JObject "(string \<times> json) list"

text \<open>
  \<^verbatim>\<open>res.json(body)\<close> sends \<^verbatim>\<open>JSON.stringify(body)\<close>: a property whose value is
  \<^verbatim>\<open>undefined\<close> is left out of its object, \<^verbatim>\<open>undefined\<close> in an array and a Number that
  is not finite become \<^verbatim>\<open>null\<close>.
\<close>

fun stringify :: "json \<Rightarrow> json" where
  "stringify (JObject ps) =
     JObject (map (\<lambda>(k, v). (k, stringify v)) (filter (\<lambda>(k, v). v \<noteq> JUndefined) ps))"
| "stringify (JArray xs) =
     JArray (map (\<lambda>v. if v = JUndefined then JNull else stringify v) xs)"
| "stringify (JNumber n) = (case n of Finite q \<Rightarrow> JNumber n | _ \<Rightarrow> JNull)"
| "stringify v = v"

record response =
  status :: nat
  body :: json

text \<open>\<^verbatim>\<open>res.status(code).json(b)\<close>, and \<^verbatim>\<open>res.json(b)\<close> with Express's default status.\<close>

definition res_status_json :: "nat \<Rightarrow> json \<Rightarrow> response" where
  "res_status_json code b = \<lparr>status = code, body = stringify b\<rparr>"

definition res_json :: "json \<Rightarrow> response" where
  "res_json b = res_status_json 200 b"

subsection \<open>Payload, errors, environment\<close>

record metadata =
  endpoint :: string
  amount :: string
  recipient :: string

record X402PaymentPayload =
  version :: string
  network :: string
  transaction :: "string option"
  metadata :: "metadata option"

datatype js_error = Error (message: string)

type_synonym bytes = "8 word list"

text \<open>
  The collaborators. \<open>'l\<close> and \<open>'v\<close> are the classes \<^verbatim>\<open>Transaction\<close> and
  \<^verbatim>\<open>VersionedTransaction\<close>; the value \<^verbatim>\<open>signTransaction\<close> resolves to is discarded by the
  handler.
\<close>

record ('l, 'v) env =
  process_env :: "string \<Rightarrow> string option"
  Buffer_from_base64 :: "string \<Rightarrow> bytes"
  Transaction_from :: "bytes \<Rightarrow> js_error + 'l"
  VersionedTransaction_deserialize :: "bytes \<Rightarrow> js_error + 'v"
  signTransaction :: "string \<Rightarrow> js_error + unit"
  signAndSendTransaction :: "string \<Rightarrow> js_error + string"
  getPayerSigner :: "js_error + string"

text \<open>\<^verbatim>\<open>process.env.X || d\<close>: the default when the variable is unset or empty.\<close>

definition env_or :: "('l, 'v) env \<Rightarrow> string \<Rightarrow> string \<Rightarrow> string" where
  "env_or E name d =
     (case process_env E name of None \<Rightarrow> d | Some s \<Rightarrow> if s = [] then d else s)"

definition NETWORK :: "('l, 'v) env \<Rightarrow> string" where
  "NETWORK E = env_or E ''NETWORK'' ''solana-devnet''"

definition USDC_MINT :: "('l, 'v) env \<Rightarrow> string" where
  "USDC_MINT E = env_or E ''USDC_MINT'' ''Gh9ZwEmdLJ8DscKNTkTqPbNwLNNBjuSzaG9Vp2KGtKJr''"

definition MOCK_MODE :: "('l, 'v) env \<Rightarrow> bool" where
  "MOCK_MODE E = (process_env E ''MOCK_MODE'' = Some ''true'')"

subsection \<open>Effects: a trace of calls, exceptions as values\<close>

datatype event =
    Call_Transaction_from bytes
  | Call_VersionedTransaction_deserialize bytes
  | Call_signTransaction string
  | Call_signAndSendTransaction string
  | Call_getPayerSigner

type_synonym 'a io = "event list \<Rightarrow> (js_error + 'a) \<times> event list"

definition return :: "'a \<Rightarrow> 'a io" where
  "return v tr = (Inr v, tr)"

definition bind :: "'a io \<Rightarrow> ('a \<Rightarrow> 'b io) \<Rightarrow> 'b io" where
  "bind m f tr = (case m tr of (Inl e, tr') \<Rightarrow> (Inl e, tr') | (Inr v, tr') \<Rightarrow> f v tr')"

text \<open>A call to a collaborator: the event is recorded, the outcome is the collaborator's.\<close>

definition call :: "event \<Rightarrow> js_error + 'a \<Rightarrow> 'a io" where
  "call ev r tr = (r, tr @ [ev])"

text \<open>\<^verbatim>\<open>try { m } catch (e) { h e }\<close>.\<close>

definition try_catch :: "'a io \<Rightarrow> (js_error \<Rightarrow> 'a io) \<Rightarrow> 'a io" where
  "try_catch m h tr = (case m tr of (Inl e, tr') \<Rightarrow> h e tr' | (Inr v, tr') \<Rightarrow> (Inr v, tr'))"

text \<open>\<^verbatim>\<open>!s\<close> for an optional string: true when it is absent or empty.\<close>

definition falsy :: "string option \<Rightarrow> bool" where
  "falsy s = (case s of None \<Rightarrow> True | Some t \<Rightarrow> t = [])"

subsection \<open>POST /verify\<close>

text \<open>
  Lines 63 to 77: the transaction is decoded from base64 and parsed, best effort. The
  result is the pair of the local variables \<^verbatim>\<open>transaction\<close> and \<^verbatim>\<open>parsedOk\<close>.
\<close>

definition decode_transaction ::
    "('l, 'v) env \<Rightarrow> string \<Rightarrow> (('l + 'v) option \<times> bool) io" where
  "decode_transaction E tx =
     (let transactionBuffer = Buffer_from_base64 E tx
      in try_catch
           (bind (call (Call_Transaction_from transactionBuffer)
                       (Transaction_from E transactionBuffer))
                 (\<lambda>t. return (Some (Inl t), True)))
           (\<lambda>_. try_catch
                  (bind (call (Call_VersionedTransaction_deserialize transactionBuffer)
                              (VersionedTransaction_deserialize E transactionBuffer))
                        (\<lambda>t. return (Some (Inr t), True)))
                  (\<lambda>error. return (None, False))))"

definition verify_body :: "('l, 'v) env \<Rightarrow> X402PaymentPayload \<Rightarrow> response io" where
  "verify_body E payload =
     (if falsy (transaction payload) then
        return (res_status_json 400 (JObject
          [(''isValid'', JBool False), (''error'', JString ''Missing transaction data'')]))
      else case metadata payload of
        None \<Rightarrow>
          return (res_status_json 400 (JObject
            [(''isValid'', JBool False), (''error'', JString ''Missing payment metadata'')]))
      | Some md \<Rightarrow>
          bind (decode_transaction E (the (transaction payload))) (\<lambda>(tx, parsedOk).
            let expectedAmount = parseFloat (amount md)
            in if number_le expectedAmount (Finite 0) \<or> isNaN expectedAmount then
                 return (res_status_json 400 (JObject
                   [(''isValid'', JBool False), (''error'', JString ''Invalid payment amount'')]))
               else
                 try_catch
                   (bind (call (Call_signTransaction (the (transaction payload)))
                               (signTransaction E (the (transaction payload))))
                     (\<lambda>_. return (res_json (JObject
                        [(''isValid'', JBool True),
                         (''network'', JString (network payload)),
                         (''amount'', JString (amount md)),
                         (''recipient'', JString (recipient md)),
                         (''parsed'', JBool parsedOk)]))))
                   (\<lambda>error. return (res_json (JObject
                      [(''isValid'', JBool False),
                       (''error'', JString ''Transaction validation failed''),
                       (''details'', if MOCK_MODE E then JString (message error)
                                     else JUndefined)])))))"

definition verify :: "('l, 'v) env \<Rightarrow> X402PaymentPayload \<Rightarrow> response io" where
  "verify E payload =
     try_catch (verify_body E payload)
       (\<lambda>error. return (res_status_json 500 (JObject
          [(''isValid'', JBool False), (''error'', JString (message error))])))"

subsection \<open>POST /settle\<close>

definition settle_body :: "('l, 'v) env \<Rightarrow> X402PaymentPayload \<Rightarrow> response io" where
  "settle_body E payload =
     (if falsy (transaction payload) then
        return (res_status_json 400 (JObject
          [(''success'', JBool False), (''error'', JString ''Missing transaction data'')]))
      else
        bind (call (Call_signAndSendTransaction (the (transaction payload)))
                   (signAndSendTransaction E (the (transaction payload))))
          (\<lambda>signature. return (res_json (JObject
             [(''success'', JBool True),
              (''signature'', JString signature),
              (''network'', JString (network payload)),
              (''explorerUrl'', JString (''https://explorer.solana.com/tx/'' @ signature
                 @ ''?cluster='' @ replace ''solana-'' [] (NETWORK E)))]))))"

definition settle :: "('l, 'v) env \<Rightarrow> X402PaymentPayload \<Rightarrow> response io" where
  "settle E payload =
     try_catch (settle_body E payload)
       (\<lambda>error. return (res_status_json 500 (JObject
          [(''success'', JBool False), (''error'', JString (message error))])))"

subsection \<open>GET /supported\<close>

definition supported_body :: "('l, 'v) env \<Rightarrow> response io" where
  "supported_body E =
     bind (if MOCK_MODE E then
             return (env_or E ''KORA_SIGNER_ADDRESS''
                       ''MockPayerAddress11111111111111111111111111'')
           else
             try_catch (call Call_getPayerSigner (getPayerSigner E))
               (\<lambda>_. return ''UnknownPayerAddress''))
       (\<lambda>feePayer. return (res_json (JObject
          [(''version'', JString ''0.0.1''),
           (''network'', JString (NETWORK E)),
           (''paymentScheme'', JString ''exact''),
           (''feePayer'', JString feePayer),
           (''tokens'', JArray
              [JObject [(''mint'', JString (USDC_MINT E)),
                        (''symbol'', JString ''USDC''),
                        (''decimals'', JNumber (Finite 6))]]),
           (''endpoints'', JObject
              [(''verify'', JString ''/verify''), (''settle'', JString ''/settle'')])])))"

definition supported :: "('l, 'v) env \<Rightarrow> response io" where
  "supported E =
     try_catch (supported_body E)
       (\<lambda>error. return (res_status_json 500 (JObject
          [(''error'', JString (message error))])))"

subsection \<open>Observations on a run\<close>

text \<open>The test of line 81 on the amount string.\<close>

definition amount_rejected :: "string \<Rightarrow> bool" where
  "amount_rejected a =
     (let expectedAmount = parseFloat a
      in number_le expectedAmount (Finite 0) \<or> isNaN expectedAmount)"

text \<open>
  A structural failure of a /verify request, as the handler tests it: no transaction, no
  metadata, or an amount that the test of line 81 rejects.
\<close>

definition structural_failure :: "X402PaymentPayload \<Rightarrow> bool" where
  "structural_failure p =
     (falsy (transaction p)
      \<or> (case metadata p of None \<Rightarrow> True | Some md \<Rightarrow> amount_rejected (amount md)))"

text \<open>Whether the buffer of a base64 text parses in the legacy or the versioned format.\<close>

definition legacy_ok :: "('l, 'v) env \<Rightarrow> string \<Rightarrow> bool" where
  "legacy_ok E tx = (\<not> isl (Transaction_from E (Buffer_from_base64 E tx)))"

definition versioned_ok :: "('l, 'v) env \<Rightarrow> string \<Rightarrow> bool" where
  "versioned_ok E tx = (\<not> isl (VersionedTransaction_deserialize E (Buffer_from_base64 E tx)))"

text \<open>The parser calls of one decoding, in order.\<close>

definition decode_trace :: "('l, 'v) env \<Rightarrow> string \<Rightarrow> event list" where
  "decode_trace E tx =
     (if legacy_ok E tx then [Call_Transaction_from (Buffer_from_base64 E tx)]
      else [Call_Transaction_from (Buffer_from_base64 E tx),
            Call_VersionedTransaction_deserialize (Buffer_from_base64 E tx)])"

fun is_parser_call :: "event \<Rightarrow> bool" where
  "is_parser_call (Call_Transaction_from _) = True"
| "is_parser_call (Call_VersionedTransaction_deserialize _) = True"
| "is_parser_call _ = False"

fun is_relay_call :: "event \<Rightarrow> bool" where
  "is_relay_call (Call_signTransaction _) = True"
| "is_relay_call (Call_signAndSendTransaction _) = True"
| "is_relay_call Call_getPayerSigner = True"
| "is_relay_call _ = False"

text \<open>A property of a JSON object, as a client reads it from the response body.\<close>

definition field :: "string \<Rightarrow> json \<Rightarrow> json option" where
  "field k j = (case j of JObject ps \<Rightarrow> map_of ps k | _ \<Rightarrow> None)"

subsection \<open>The specification's wording, for comparison\<close>

text \<open>
  The Payment Validator as the specification words it: three checks in order, the third
  being that the amount parses to a finite number above zero.
\<close>

datatype structural_error = MissingTransaction | MissingMetadata | InvalidAmount

definition positive_finite :: "number \<Rightarrow> bool" where
  "positive_finite n = (case n of Finite q \<Rightarrow> 0 < q | _ \<Rightarrow> False)"

definition spec_validateVerifyRequest :: "X402PaymentPayload \<Rightarrow> structural_error option" where
  "spec_validateVerifyRequest payload =
     (if falsy (transaction payload) then Some MissingTransaction
      else case metadata payload of
             None \<Rightarrow> Some MissingMetadata
           | Some md \<Rightarrow>
               if positive_finite (parseFloat (amount md)) then None else Some InvalidAmount)"

text \<open>``The network name with a fixed prefix stripped'', as the specification words it.\<close>

definition spec_strip_prefix :: "string \<Rightarrow> string \<Rightarrow> string" where
  "spec_strip_prefix pre s = (if prefix pre s then drop (length pre) s else s)"

subsection \<open>An example environment\<close>

text \<open>
  A decoder for base64 text in the standard alphabet: it agrees with
  \<^verbatim>\<open>Buffer.from(s, 'base64')\<close> on well-formed base64.
\<close>

definition base64_digit :: "char \<Rightarrow> nat option" where
  "base64_digit c =
     (let n = (of_char c :: nat)
      in if 65 \<le> n \<and> n \<le> 90 then Some (n - 65)
         else if 97 \<le> n \<and> n \<le> 122 then Some (n - 71)
         else if 48 \<le> n \<and> n \<le> 57 then Some (n + 4)
         else if c = CHR ''+'' then Some 62
         else if c = CHR ''/'' then Some 63
         else None)"

fun sextets_to_bytes :: "nat list \<Rightarrow> bytes" where
  "sextets_to_bytes (a # b # c # d # r) =
     [of_nat (a * 4 + b div 16), of_nat (b mod 16 * 16 + c div 4), of_nat (c mod 4 * 64 + d)]
       @ sextets_to_bytes r"
| "sextets_to_bytes [a, b, c] = [of_nat (a * 4 + b div 16), of_nat (b mod 16 * 16 + c div 4)]"
| "sextets_to_bytes [a, b] = [of_nat (a * 4 + b div 16)]"
| "sextets_to_bytes _ = []"

definition base64_decode :: "string \<Rightarrow> bytes" where
  "base64_decode s =
     sextets_to_bytes (map (the \<circ> base64_digit)
       (takeWhile (\<lambda>c. base64_digit c \<noteq> None) s))"

text \<open>
  The example environment takes the process environment and whether the relay answers.
  Its legacy parser accepts a buffer that starts with byte 1, its versioned parser one
  that starts with byte 2; the relay, when it answers, accepts every transaction.
\<close>

definition example_env :: "(string \<Rightarrow> string option) \<Rightarrow> bool \<Rightarrow> (unit, unit) env" where
  "example_env penv up =
     \<lparr>process_env = penv,
      Buffer_from_base64 = base64_decode,
      Transaction_from =
        (\<lambda>b. if take 1 b = [1] then Inr () else Inl (Error ''not a legacy transaction'')),
      VersionedTransaction_deserialize =
        (\<lambda>b. if take 1 b = [2] then Inr () else Inl (Error ''not a versioned transaction'')),
      signTransaction =
        (\<lambda>tx. if up then Inr () else Inl (Error ''relay unreachable'')),
      signAndSendTransaction =
        (\<lambda>tx. if up then Inr ''5VERv8NMvzbJMEkV8xnrLkEaWRtSz9CosKDYjCJjBRnb''
               else Inl (Error ''relay unreachable'')),
      getPayerSigner =
        (if up then Inr ''FeePayer1111111111111111111111111111111111''
         else Inl (Error ''relay unreachable''))\<rparr>"

definition example_payload ::
    "string option \<Rightarrow> string \<Rightarrow> string option \<Rightarrow> X402PaymentPayload" where
  "example_payload tx net amt =
     \<lparr>version = ''1'', network = net, transaction = tx,
      metadata = (case amt of
                    None \<Rightarrow> None
                  | Some a \<Rightarrow> Some \<lparr>endpoint = ''/x'', amount = a, recipient = ''Rcp1''\<rparr>)\<rparr>"

section \<open>What a run of each handler is\<close>

lemmas io_defs = return_def bind_def call_def try_catch_def

lemma decode_transaction_run:
  "\<exists>t. decode_transaction E tx tr =
     (Inr (t, legacy_ok E tx \<or> versioned_ok E tx), tr @ decode_trace E tx)"
  by (cases "Transaction_from E (Buffer_from_base64 E tx)";
      cases "VersionedTransaction_deserialize E (Buffer_from_base64 E tx)")
     (simp_all add: decode_transaction_def io_defs legacy_ok_def versioned_ok_def
        decode_trace_def Let_def)

lemma verify_run:
  "verify E p tr =
     (if falsy (transaction p) then
        (Inr \<lparr>status = 400, body = JObject
           [(''isValid'', JBool False), (''error'', JString ''Missing transaction data'')]\<rparr>, tr)
      else case metadata p of
        None \<Rightarrow>
          (Inr \<lparr>status = 400, body = JObject
             [(''isValid'', JBool False), (''error'', JString ''Missing payment metadata'')]\<rparr>, tr)
      | Some md \<Rightarrow>
          if amount_rejected (amount md) then
            (Inr \<lparr>status = 400, body = JObject
               [(''isValid'', JBool False), (''error'', JString ''Invalid payment amount'')]\<rparr>,
             tr @ decode_trace E (the (transaction p)))
          else
            (Inr (case signTransaction E (the (transaction p)) of
                    Inl e \<Rightarrow>
                      \<lparr>status = 200, body = JObject
                         ([(''isValid'', JBool False),
                           (''error'', JString ''Transaction validation failed'')]
                          @ (if MOCK_MODE E then [(''details'', JString (message e))] else []))\<rparr>
                  | Inr _ \<Rightarrow>
                      \<lparr>status = 200, body = JObject
                         [(''isValid'', JBool True),
                          (''network'', JString (network p)),
                          (''amount'', JString (amount md)),
                          (''recipient'', JString (recipient md)),
                          (''parsed'', JBool (legacy_ok E (the (transaction p))
                                              \<or> versioned_ok E (the (transaction p))))]\<rparr>),
             tr @ decode_trace E (the (transaction p))
                @ [Call_signTransaction (the (transaction p))]))"
proof -
  obtain t where d: "decode_transaction E (the (transaction p)) tr =
      (Inr (t, legacy_ok E (the (transaction p)) \<or> versioned_ok E (the (transaction p))),
       tr @ decode_trace E (the (transaction p)))"
    using decode_transaction_run by blast
  show ?thesis
    by (cases "metadata p"; cases "signTransaction E (the (transaction p))")
       (simp_all add: verify_def verify_body_def io_defs d amount_rejected_def
          res_json_def res_status_json_def Let_def)
qed

lemma settle_run:
  "settle E p tr =
     (if falsy (transaction p) then
        (Inr \<lparr>status = 400, body = JObject
           [(''success'', JBool False), (''error'', JString ''Missing transaction data'')]\<rparr>, tr)
      else
        (Inr (case signAndSendTransaction E (the (transaction p)) of
                Inl e \<Rightarrow>
                  \<lparr>status = 500, body = JObject
                     [(''success'', JBool False), (''error'', JString (message e))]\<rparr>
              | Inr sg \<Rightarrow>
                  \<lparr>status = 200, body = JObject
                     [(''success'', JBool True),
                      (''signature'', JString sg),
                      (''network'', JString (network p)),
                      (''explorerUrl'', JString (''https://explorer.solana.com/tx/'' @ sg
                         @ ''?cluster='' @ replace ''solana-'' [] (NETWORK E)))]\<rparr>),
         tr @ [Call_signAndSendTransaction (the (transaction p))]))"
  by (cases "signAndSendTransaction E (the (transaction p))")
     (simp_all add: settle_def settle_body_def io_defs res_json_def res_status_json_def)

lemma supported_run:
  "supported E tr =
     (Inr \<lparr>status = 200, body = JObject
        [(''version'', JString ''0.0.1''),
         (''network'', JString (NETWORK E)),
         (''paymentScheme'', JString ''exact''),
         (''feePayer'', JString
            (if MOCK_MODE E then
               env_or E ''KORA_SIGNER_ADDRESS'' ''MockPayerAddress11111111111111111111111111''
             else case getPayerSigner E of
                    Inl _ \<Rightarrow> ''UnknownPayerAddress''
                  | Inr a \<Rightarrow> a)),
         (''tokens'', JArray
            [JObject [(''mint'', JString (USDC_MINT E)),
                      (''symbol'', JString ''USDC''),
                      (''decimals'', JNumber (Finite 6))]]),
         (''endpoints'', JObject
            [(''verify'', JString ''/verify''), (''settle'', JString ''/settle'')])]\<rparr>,
      tr @ (if MOCK_MODE E then [] else [Call_getPayerSigner]))"
  by (cases "getPayerSigner E")
     (simp_all add: supported_def supported_body_def io_defs res_json_def res_status_json_def)

lemma replace_prefix:
  "prefix pat s \<Longrightarrow> replace pat rep s = rep @ drop (length pat) s"
  by (cases s) simp_all

lemma amount_rejected_iff:
  "amount_rejected a \<longleftrightarrow> \<not> (positive_finite (parseFloat a) \<or> parseFloat a = PosInfinity)"
  by (cases "parseFloat a")
     (auto simp: amount_rejected_def isNaN_def positive_finite_def Let_def)

lemma decode_trace_calls:
  "decode_trace E tx \<noteq> []"
  "\<forall>ev \<in> set (decode_trace E tx). is_parser_call ev"
  "filter is_relay_call (decode_trace E tx) = []"
  by (simp_all add: decode_trace_def)

subsection \<open>The example environment, evaluated\<close>

lemma base64_decode_examples:
  "base64_decode ''AQ=='' = [1]"
  "base64_decode ''AA=='' = [0]"
  by (simp_all add: base64_decode_def base64_digit_def)

lemma parseFloat_examples:
  "parseFloat ''0'' = Finite 0"
  "parseFloat ''1.5'' = Finite (3 / 2)"
  "parseFloat ''-2'' = Finite (- 2)"
  "parseFloat ''abc'' = NaN"
  "parseFloat ''Infinity'' = PosInfinity"
  by code_simp+

lemma amount_rejected_examples:
  "amount_rejected ''0''"
  "\<not> amount_rejected ''1.5''"
  "amount_rejected ''-2''"
  "amount_rejected ''abc''"
  "\<not> amount_rejected ''Infinity''"
  by (simp_all add: amount_rejected_def parseFloat_examples isNaN_def)

lemma example_env_simps:
  "process_env (example_env penv up) = penv"
  "Buffer_from_base64 (example_env penv up) = base64_decode"
  "signTransaction (example_env penv up) tx =
     (if up then Inr () else Inl (Error ''relay unreachable''))"
  "signAndSendTransaction (example_env penv up) tx =
     (if up then Inr ''5VERv8NMvzbJMEkV8xnrLkEaWRtSz9CosKDYjCJjBRnb''
      else Inl (Error ''relay unreachable''))"
  "getPayerSigner (example_env penv up) =
     (if up then Inr ''FeePayer1111111111111111111111111111111111''
      else Inl (Error ''relay unreachable''))"
  by (simp_all add: example_env_def)

lemma example_env_parsers:
  "legacy_ok (example_env penv up) ''AQ=='' = True"
  "legacy_ok (example_env penv up) ''AA=='' = False"
  "versioned_ok (example_env penv up) ''AQ=='' = False"
  "versioned_ok (example_env penv up) ''AA=='' = False"
  by (simp_all add: legacy_ok_def versioned_ok_def example_env_def base64_decode_examples)

lemma example_decode_trace:
  "decode_trace (example_env penv up) ''AQ=='' = [Call_Transaction_from [1]]"
  "decode_trace (example_env penv up) ''AA=='' =
     [Call_Transaction_from [0], Call_VersionedTransaction_deserialize [0]]"
  by (simp_all add: decode_trace_def example_env_parsers example_env_simps
        base64_decode_examples)

lemma example_config:
  "NETWORK (example_env Map.empty up) = ''solana-devnet''"
  "NETWORK (example_env [''NETWORK'' \<mapsto> ''test-solana-devnet''] up) = ''test-solana-devnet''"
  "MOCK_MODE (example_env Map.empty up) = False"
  "MOCK_MODE (example_env [''MOCK_MODE'' \<mapsto> ''true''] up) = True"
  by (simp_all add: NETWORK_def MOCK_MODE_def env_or_def example_env_simps)

lemma example_payload_simps:
  "transaction (example_payload tx net amt) = tx"
  "network (example_payload tx net amt) = net"
  "metadata (example_payload tx net None) = None"
  "metadata (example_payload tx net (Some a)) =
     Some \<lparr>endpoint = ''/x'', amount = a, recipient = ''Rcp1''\<rparr>"
  by (simp_all add: example_payload_def)

lemmas example_simps =
  example_env_simps example_env_parsers example_decode_trace example_config
  example_payload_simps amount_rejected_examples parseFloat_examples falsy_def

section \<open>Structural failures\<close>

text \<open>
  Claim C5. For every payload whose transaction field is missing or empty, /verify
  answers 400 with \<^verbatim>\<open>{isValid:false, error:"Missing transaction data"}\<close>, /settle answers
  400 with \<^verbatim>\<open>{success:false, error:"Missing transaction data"}\<close>, and neither calls the
  relay client: the trace of calls is left as it was.
\<close>

theorem missing_transaction_rejected:
  assumes "falsy (transaction p)"
  shows "verify E p tr =
           (Inr \<lparr>status = 400, body = JObject
              [(''isValid'', JBool False), (''error'', JString ''Missing transaction data'')]\<rparr>,
            tr)
         \<and> settle E p tr =
           (Inr \<lparr>status = 400, body = JObject
              [(''success'', JBool False), (''error'', JString ''Missing transaction data'')]\<rparr>,
            tr)"
  using assms by (simp add: verify_run settle_run)

theorem missing_transaction_rejected_witness:
  "falsy (transaction (example_payload (Some []) ''solana-devnet'' (Some ''1.5'')))
   \<and> verify (example_env Map.empty True)
        (example_payload (Some []) ''solana-devnet'' (Some ''1.5'')) [] =
       (Inr \<lparr>status = 400, body = JObject
          [(''isValid'', JBool False), (''error'', JString ''Missing transaction data'')]\<rparr>,
        [])
   \<and> settle (example_env Map.empty True)
        (example_payload (Some []) ''solana-devnet'' (Some ''1.5'')) [] =
       (Inr \<lparr>status = 400, body = JObject
          [(''success'', JBool False), (''error'', JString ''Missing transaction data'')]\<rparr>,
        [])"
proof -
  have h: "falsy (transaction (example_payload (Some []) ''solana-devnet'' (Some ''1.5'')))"
    by (simp add: example_simps)
  show ?thesis
    using h missing_transaction_rejected [OF h, of "example_env Map.empty True" "[]"]
    by simp
qed

text \<open>
  Claim C1, as the code has it. Check (a), the transaction is present and non-empty, and
  check (b), the metadata is present, run first and in this order, and a request that
  fails one of them is answered 400 before any parser is called. Then the Transaction
  Decoder runs. Check (c) runs after the decoder and before the relay call: it rejects the
  amount exactly when \<^verbatim>\<open>parseFloat\<close> of it is neither a positive finite number nor
  \<^verbatim>\<open>+Infinity\<close>, and the rejected request is answered 400 with the parser calls already
  made. A request that passes all three goes on to \<^verbatim>\<open>signTransaction\<close>.
\<close>

theorem verify_pipeline:
  "(falsy (transaction p) \<longrightarrow>
      verify E p tr =
        (Inr \<lparr>status = 400, body = JObject
           [(''isValid'', JBool False), (''error'', JString ''Missing transaction data'')]\<rparr>,
         tr))
   \<and> (\<not> falsy (transaction p) \<and> metadata p = None \<longrightarrow>
      verify E p tr =
        (Inr \<lparr>status = 400, body = JObject
           [(''isValid'', JBool False), (''error'', JString ''Missing payment metadata'')]\<rparr>,
         tr))
   \<and> (\<not> falsy (transaction p) \<and> metadata p = Some md \<and> amount_rejected (amount md) \<longrightarrow>
      verify E p tr =
        (Inr \<lparr>status = 400, body = JObject
           [(''isValid'', JBool False), (''error'', JString ''Invalid payment amount'')]\<rparr>,
         tr @ decode_trace E (the (transaction p))))
   \<and> (\<not> falsy (transaction p) \<and> metadata p = Some md \<and> \<not> amount_rejected (amount md) \<longrightarrow>
      (\<exists>r. verify E p tr =
        (Inr r, tr @ decode_trace E (the (transaction p))
                   @ [Call_signTransaction (the (transaction p))])))
   \<and> (amount_rejected a \<longleftrightarrow>
        \<not> (positive_finite (parseFloat a) \<or> parseFloat a = PosInfinity))
   \<and> decode_trace E tx \<noteq> []
   \<and> (\<forall>ev \<in> set (decode_trace E tx). is_parser_call ev)"
  by (simp add: verify_run amount_rejected_iff [of a] decode_trace_calls)

theorem verify_pipeline_witness:
  "verify (example_env Map.empty True) (example_payload None ''solana-devnet'' None) [] =
     (Inr \<lparr>status = 400, body = JObject
        [(''isValid'', JBool False), (''error'', JString ''Missing transaction data'')]\<rparr>, [])
   \<and> verify (example_env Map.empty True)
        (example_payload (Some ''AA=='') ''solana-devnet'' None) [] =
     (Inr \<lparr>status = 400, body = JObject
        [(''isValid'', JBool False), (''error'', JString ''Missing payment metadata'')]\<rparr>, [])
   \<and> verify (example_env Map.empty True)
        (example_payload (Some ''AA=='') ''solana-devnet'' (Some ''abc'')) [] =
     (Inr \<lparr>status = 400, body = JObject
        [(''isValid'', JBool False), (''error'', JString ''Invalid payment amount'')]\<rparr>,
      [Call_Transaction_from [0], Call_VersionedTransaction_deserialize [0]])
   \<and> (\<exists>r. verify (example_env Map.empty True)
        (example_payload (Some ''AQ=='') ''solana-devnet'' (Some ''1.5'')) [] =
     (Inr r, [Call_Transaction_from [1], Call_signTransaction ''AQ=='']))"
  using
    verify_pipeline [of "example_payload None ''solana-devnet'' None"
      "example_env Map.empty True" "[]"
      "\<lparr>endpoint = ''/x'', amount = ''abc'', recipient = ''Rcp1''\<rparr>" "''0''" "''AA==''"]
    verify_pipeline [of "example_payload (Some ''AA=='') ''solana-devnet'' None"
      "example_env Map.empty True" "[]"
      "\<lparr>endpoint = ''/x'', amount = ''abc'', recipient = ''Rcp1''\<rparr>" "''0''" "''AA==''"]
    verify_pipeline [of "example_payload (Some ''AA=='') ''solana-devnet'' (Some ''abc'')"
      "example_env Map.empty True" "[]"
      "\<lparr>endpoint = ''/x'', amount = ''abc'', recipient = ''Rcp1''\<rparr>" "''0''" "''AA==''"]
    verify_pipeline [of "example_payload (Some ''AQ=='') ''solana-devnet'' (Some ''1.5'')"
      "example_env Map.empty True" "[]"
      "\<lparr>endpoint = ''/x'', amount = ''1.5'', recipient = ''Rcp1''\<rparr>" "''0''" "''AA==''"]
  by (simp add: example_simps)

text \<open>
  Claim C1, as stated, fails: the specification's validator rejects the amount
  \<^verbatim>\<open>"0"\<close>, yet both parsers have already been called when the handler answers, so the
  third check did not complete before the Transaction Decoder ran.
\<close>

theorem validation_before_decoding_counterexample:
  "spec_validateVerifyRequest (example_payload (Some ''AA=='') ''solana-devnet'' (Some ''0''))
     = Some InvalidAmount
   \<and> verify (example_env Map.empty True)
        (example_payload (Some ''AA=='') ''solana-devnet'' (Some ''0'')) [] =
     (Inr \<lparr>status = 400, body = JObject
        [(''isValid'', JBool False), (''error'', JString ''Invalid payment amount'')]\<rparr>,
      [Call_Transaction_from [0], Call_VersionedTransaction_deserialize [0]])"
  by (simp add: spec_validateVerifyRequest_def positive_finite_def verify_run example_simps)

text \<open>
  Claim C2, as the code has it. For every /verify payload with a non-empty transaction and
  metadata present, if \<^verbatim>\<open>parseFloat\<close> of the amount is NaN or is at most zero, the handler
  answers 400 with \<^verbatim>\<open>{isValid:false, error:"Invalid payment amount"}\<close> and no relay call
  occurs. An amount that parses to \<^verbatim>\<open>+Infinity\<close> is not rejected: the request goes on to
  the relay call.
\<close>

theorem invalid_amount_rejected:
  assumes "\<not> falsy (transaction p)" and "metadata p = Some md"
  shows "(parseFloat (amount md) = NaN \<or> number_le (parseFloat (amount md)) (Finite 0) \<longrightarrow>
            (\<exists>tr'. verify E p tr =
               (Inr \<lparr>status = 400, body = JObject
                  [(''isValid'', JBool False), (''error'', JString ''Invalid payment amount'')]\<rparr>,
                tr @ tr')
             \<and> (\<forall>ev \<in> set tr'. \<not> is_relay_call ev)))
         \<and> (parseFloat (amount md) = PosInfinity \<longrightarrow>
              Call_signTransaction (the (transaction p)) \<in> set (snd (verify E p tr)))"
proof (intro conjI impI)
  assume "parseFloat (amount md) = NaN \<or> number_le (parseFloat (amount md)) (Finite 0)"
  then have "amount_rejected (amount md)"
    by (auto simp: amount_rejected_def isNaN_def Let_def)
  with assms have "verify E p tr =
      (Inr \<lparr>status = 400, body = JObject
         [(''isValid'', JBool False), (''error'', JString ''Invalid payment amount'')]\<rparr>,
       tr @ decode_trace E (the (transaction p)))"
    by (simp add: verify_run)
  moreover have "\<forall>ev \<in> set (decode_trace E (the (transaction p))). \<not> is_relay_call ev"
    by (simp add: decode_trace_def)
  ultimately show "\<exists>tr'. verify E p tr =
      (Inr \<lparr>status = 400, body = JObject
         [(''isValid'', JBool False), (''error'', JString ''Invalid payment amount'')]\<rparr>,
       tr @ tr')
      \<and> (\<forall>ev \<in> set tr'. \<not> is_relay_call ev)"
    by blast
next
  assume "parseFloat (amount md) = PosInfinity"
  then have "\<not> amount_rejected (amount md)"
    by (simp add: amount_rejected_def isNaN_def)
  with assms show "Call_signTransaction (the (transaction p)) \<in> set (snd (verify E p tr))"
    by (simp add: verify_run)
qed

theorem invalid_amount_rejected_witness:
  "(\<exists>tr'. verify (example_env Map.empty True)
       (example_payload (Some ''AQ=='') ''solana-devnet'' (Some ''-2'')) [] =
       (Inr \<lparr>status = 400, body = JObject
          [(''isValid'', JBool False), (''error'', JString ''Invalid payment amount'')]\<rparr>,
        [] @ tr')
     \<and> (\<forall>ev \<in> set tr'. \<not> is_relay_call ev))
   \<and> Call_signTransaction ''AQ=='' \<in> set (snd (verify (example_env Map.empty True)
       (example_payload (Some ''AQ=='') ''solana-devnet'' (Some ''Infinity'')) []))"
  using
    invalid_amount_rejected [of "example_payload (Some ''AQ=='') ''solana-devnet'' (Some ''-2'')"
      "\<lparr>endpoint = ''/x'', amount = ''-2'', recipient = ''Rcp1''\<rparr>"
      "example_env Map.empty True" "[]"]
    invalid_amount_rejected [of
      "example_payload (Some ''AQ=='') ''solana-devnet'' (Some ''Infinity'')"
      "\<lparr>endpoint = ''/x'', amount = ''Infinity'', recipient = ''Rcp1''\<rparr>"
      "example_env Map.empty True" "[]"]
  by (simp add: example_simps)

text \<open>
  Claim C2, as stated, fails: the amount \<^verbatim>\<open>"Infinity"\<close> does not parse as a positive
  finite number, yet the handler calls the relay and answers \<^verbatim>\<open>{isValid:true}\<close>.
\<close>

theorem infinite_amount_counterexample:
  "\<not> positive_finite (parseFloat ''Infinity'')
   \<and> verify (example_env Map.empty True)
        (example_payload (Some ''AQ=='') ''solana-devnet'' (Some ''Infinity'')) [] =
     (Inr \<lparr>status = 200, body = JObject
        [(''isValid'', JBool True),
         (''network'', JString ''solana-devnet''),
         (''amount'', JString ''Infinity''),
         (''recipient'', JString ''Rcp1''),
         (''parsed'', JBool True)]\<rparr>,
      [Call_Transaction_from [1], Call_signTransaction ''AQ==''])"
  by (simp add: positive_finite_def verify_run example_simps)

section \<open>The Transaction Decoder\<close>

text \<open>
  Claim C3, as the code has it. Decoding never raises to the caller, whatever the two
  parsers do: it returns the flag \<open>parsedOk\<close>, false when both parsers failed. The
  legacy parser is called first and the versioned parser only when the legacy one failed.
  An unrecognised transaction does not stop the request: after the decoder the handler
  goes on to the amount check of line 81 and, when that check accepts the amount, to
  \<^verbatim>\<open>signTransaction\<close>, whatever the parsers did; when the check rejects the amount the
  request is answered 400 and the relay is not called. Neither the relay calls of a run
  nor the status of its response depend on the parsers.
\<close>

theorem decoder_never_raises:
  "(\<exists>t. decode_transaction E tx tr =
        (Inr (t, legacy_ok E tx \<or> versioned_ok E tx),
         tr @ Call_Transaction_from (Buffer_from_base64 E tx)
            # (if legacy_ok E tx then []
               else [Call_VersionedTransaction_deserialize (Buffer_from_base64 E tx)])))
   \<and> (\<not> falsy (transaction p) \<and> metadata p = Some md \<and> \<not> amount_rejected (amount md) \<longrightarrow>
        (\<exists>r. verify E p tr =
           (Inr r, tr @ decode_trace E (the (transaction p))
                      @ [Call_signTransaction (the (transaction p))])))
   \<and> (\<not> falsy (transaction p) \<and> metadata p = Some md \<and> amount_rejected (amount md) \<longrightarrow>
        verify E p tr =
          (Inr \<lparr>status = 400, body = JObject
             [(''isValid'', JBool False), (''error'', JString ''Invalid payment amount'')]\<rparr>,
           tr @ decode_trace E (the (transaction p)))
        \<and> filter is_relay_call (decode_trace E (the (transaction p))) = [])
   \<and> filter is_relay_call
        (snd (verify (E\<lparr>Transaction_from := f, VersionedTransaction_deserialize := g\<rparr>) p tr))
      = filter is_relay_call (snd (verify E p tr))
   \<and> map_sum id status
        (fst (verify (E\<lparr>Transaction_from := f, VersionedTransaction_deserialize := g\<rparr>) p tr))
      = map_sum id status (fst (verify E p tr))"
proof (intro conjI)
  show "\<exists>t. decode_transaction E tx tr =
        (Inr (t, legacy_ok E tx \<or> versioned_ok E tx),
         tr @ Call_Transaction_from (Buffer_from_base64 E tx)
            # (if legacy_ok E tx then []
               else [Call_VersionedTransaction_deserialize (Buffer_from_base64 E tx)]))"
    using decode_transaction_run [of E tx tr]
    by (cases "legacy_ok E tx") (simp_all add: decode_trace_def)
next
  show "\<not> falsy (transaction p) \<and> metadata p = Some md \<and> \<not> amount_rejected (amount md) \<longrightarrow>
        (\<exists>r. verify E p tr =
           (Inr r, tr @ decode_trace E (the (transaction p))
                      @ [Call_signTransaction (the (transaction p))]))"
    by (simp add: verify_run)
next
  show "\<not> falsy (transaction p) \<and> metadata p = Some md \<and> amount_rejected (amount md) \<longrightarrow>
        verify E p tr =
          (Inr \<lparr>status = 400, body = JObject
             [(''isValid'', JBool False), (''error'', JString ''Invalid payment amount'')]\<rparr>,
           tr @ decode_trace E (the (transaction p)))
        \<and> filter is_relay_call (decode_trace E (the (transaction p))) = []"
    by (simp add: verify_run decode_trace_calls)
next
  show "filter is_relay_call
        (snd (verify (E\<lparr>Transaction_from := f, VersionedTransaction_deserialize := g\<rparr>) p tr))
      = filter is_relay_call (snd (verify E p tr))"
    by (cases "metadata p") (simp_all add: verify_run decode_trace_calls)
next
  show "map_sum id status
        (fst (verify (E\<lparr>Transaction_from := f, VersionedTransaction_deserialize := g\<rparr>) p tr))
      = map_sum id status (fst (verify E p tr))"
    by (cases "metadata p"; cases "signTransaction E (the (transaction p))")
       (simp_all add: verify_run MOCK_MODE_def)
qed

theorem decoder_never_raises_witness:
  "(\<exists>t. decode_transaction (example_env Map.empty True) ''AA=='' [] =
        (Inr (t, False),
         [Call_Transaction_from [0], Call_VersionedTransaction_deserialize [0]]))
   \<and> (\<exists>r. verify (example_env Map.empty True)
              (example_payload (Some ''AA=='') ''solana-devnet'' (Some ''1.5'')) [] =
           (Inr r, [Call_Transaction_from [0], Call_VersionedTransaction_deserialize [0],
                    Call_signTransaction ''AA=='']))
   \<and> verify (example_env Map.empty True)
        (example_payload (Some ''AA=='') ''solana-devnet'' (Some ''abc'')) [] =
       (Inr \<lparr>status = 400, body = JObject
          [(''isValid'', JBool False), (''error'', JString ''Invalid payment amount'')]\<rparr>,
        [Call_Transaction_from [0], Call_VersionedTransaction_deserialize [0]])"
  using
    decoder_never_raises [where E = "example_env Map.empty True" and tx = "''AA==''"
      and tr = "[]"
      and p = "example_payload (Some ''AA=='') ''solana-devnet'' (Some ''1.5'')"
      and md = "\<lparr>endpoint = ''/x'', amount = ''1.5'', recipient = ''Rcp1''\<rparr>"
      and f = "\<lambda>b. Inr ()" and g = "\<lambda>b. Inr ()"]
    decoder_never_raises [where E = "example_env Map.empty True" and tx = "''AA==''"
      and tr = "[]"
      and p = "example_payload (Some ''AA=='') ''solana-devnet'' (Some ''abc'')"
      and md = "\<lparr>endpoint = ''/x'', amount = ''abc'', recipient = ''Rcp1''\<rparr>"
      and f = "\<lambda>b. Inr ()" and g = "\<lambda>b. Inr ()"]
  by (simp add: example_simps base64_decode_examples)

text \<open>
  Claim C3, as stated, fails: for the transaction \<^verbatim>\<open>AA==\<close> the decoder's result is
  unrecognised, and with the amount \<^verbatim>\<open>"-2"\<close> the request does not proceed to the relay
  call: it is answered 400 and \<^verbatim>\<open>signTransaction\<close> is never called.
\<close>

theorem unrecognized_proceeds_counterexample:
  "decode_transaction (example_env Map.empty True) ''AA=='' [] =
     (Inr (None, False),
      [Call_Transaction_from [0], Call_VersionedTransaction_deserialize [0]])
   \<and> verify (example_env Map.empty True)
        (example_payload (Some ''AA=='') ''solana-devnet'' (Some ''-2'')) [] =
     (Inr \<lparr>status = 400, body = JObject
        [(''isValid'', JBool False), (''error'', JString ''Invalid payment amount'')]\<rparr>,
      [Call_Transaction_from [0], Call_VersionedTransaction_deserialize [0]])
   \<and> Call_signTransaction ''AA=='' \<notin> set (snd (verify (example_env Map.empty True)
        (example_payload (Some ''AA=='') ''solana-devnet'' (Some ''-2'')) []))"
proof -
  have d: "decode_transaction (example_env Map.empty True) ''AA=='' [] =
     (Inr (None, False),
      [Call_Transaction_from [0], Call_VersionedTransaction_deserialize [0]])"
    by (simp add: decode_transaction_def io_defs example_env_def base64_decode_examples
          Let_def)
  have v: "verify (example_env Map.empty True)
        (example_payload (Some ''AA=='') ''solana-devnet'' (Some ''-2'')) [] =
     (Inr \<lparr>status = 400, body = JObject
        [(''isValid'', JBool False), (''error'', JString ''Invalid payment amount'')]\<rparr>,
      [Call_Transaction_from [0], Call_VersionedTransaction_deserialize [0]])"
    by (simp add: verify_run example_simps)
  show ?thesis
    by (simp add: d v)
qed

section \<open>The relay call of /verify\<close>

text \<open>
  Claim C4. For every /verify request that reaches the relay call, a relay error ends the
  request with a well-formed negative response: \<^verbatim>\<open>isValid\<close> is false and \<^verbatim>\<open>error\<close> is the
  generic message \<^verbatim>\<open>"Transaction validation failed"\<close>. The relay's own message is in the
  response, as \<^verbatim>\<open>details\<close>, in mock mode, and the response has no \<^verbatim>\<open>details\<close> otherwise.
\<close>

theorem relay_error_response:
  assumes "Call_signTransaction tx \<in> set (snd (verify E p []))"
    and "signTransaction E tx = Inl e"
  shows "\<exists>r. fst (verify E p []) = Inr r
           \<and> body r = JObject
               ([(''isValid'', JBool False),
                 (''error'', JString ''Transaction validation failed'')]
                @ (if MOCK_MODE E then [(''details'', JString (message e))] else []))
           \<and> field ''error'' (body r) = Some (JString ''Transaction validation failed'')
           \<and> field ''details'' (body r) =
               (if MOCK_MODE E then Some (JString (message e)) else None)"
proof -
  from assms(1) have reach: "\<not> falsy (transaction p)" "metadata p \<noteq> None"
    by (auto simp: verify_run split: if_splits option.splits)
  then obtain md where md: "metadata p = Some md"
    by blast
  from assms(1) reach md have ok: "\<not> amount_rejected (amount md)" "tx = the (transaction p)"
    by (auto simp: verify_run decode_trace_def split: if_splits)
  show ?thesis
    using reach md ok assms(2) by (simp add: verify_run field_def)
qed

theorem relay_error_response_witness:
  "(\<exists>r. fst (verify (example_env Map.empty False)
             (example_payload (Some ''AQ=='') ''solana-devnet'' (Some ''1.5'')) []) = Inr r
        \<and> body r = JObject
            [(''isValid'', JBool False),
             (''error'', JString ''Transaction validation failed'')]
        \<and> field ''error'' (body r) = Some (JString ''Transaction validation failed'')
        \<and> field ''details'' (body r) = None)
   \<and> (\<exists>r. fst (verify (example_env [''MOCK_MODE'' \<mapsto> ''true''] False)
             (example_payload (Some ''AQ=='') ''solana-devnet'' (Some ''1.5'')) []) = Inr r
        \<and> body r = JObject
            [(''isValid'', JBool False),
             (''error'', JString ''Transaction validation failed''),
             (''details'', JString ''relay unreachable'')]
        \<and> field ''error'' (body r) = Some (JString ''Transaction validation failed'')
        \<and> field ''details'' (body r) = Some (JString ''relay unreachable''))"
proof -
  have reach: "Call_signTransaction ''AQ=='' \<in> set (snd (verify (example_env penv False)
      (example_payload (Some ''AQ=='') ''solana-devnet'' (Some ''1.5'')) []))" for penv
    by (simp add: verify_run example_simps)
  have err: "signTransaction (example_env penv False) ''AQ=='' = Inl (Error ''relay unreachable'')"
    for penv
    by (simp add: example_simps)
  show ?thesis
    using relay_error_response [OF reach err, of Map.empty]
      relay_error_response [OF reach err, of "[''MOCK_MODE'' \<mapsto> ''true'']"]
    by (simp add: example_config)
qed

text \<open>
  Claim C6. For every /verify request whose relay call succeeds, the response is
  \<^verbatim>\<open>{isValid:true}\<close> with the payload's network, the metadata's amount and the metadata's
  recipient echoed unchanged, and with \<^verbatim>\<open>parsed\<close> true exactly when the transaction bytes
  parse in the legacy or in the versioned format.
\<close>

theorem relay_success_response:
  assumes "Call_signTransaction tx \<in> set (snd (verify E p []))"
    and "signTransaction E tx = Inr u"
  shows "\<exists>md. metadata p = Some md
           \<and> fst (verify E p []) =
               Inr \<lparr>status = 200, body = JObject
                 [(''isValid'', JBool True),
                  (''network'', JString (network p)),
                  (''amount'', JString (amount md)),
                  (''recipient'', JString (recipient md)),
                  (''parsed'', JBool (legacy_ok E tx \<or> versioned_ok E tx))]\<rparr>"
proof -
  from assms(1) have reach: "\<not> falsy (transaction p)" "metadata p \<noteq> None"
    by (auto simp: verify_run split: if_splits option.splits)
  then obtain md where md: "metadata p = Some md"
    by blast
  from assms(1) reach md have ok: "\<not> amount_rejected (amount md)" "tx = the (transaction p)"
    by (auto simp: verify_run decode_trace_def split: if_splits)
  show ?thesis
    using reach md ok assms(2) by (simp add: verify_run)
qed

theorem relay_success_response_witness:
  "fst (verify (example_env Map.empty True)
          (example_payload (Some ''AQ=='') ''solana-devnet'' (Some ''1.5'')) []) =
     Inr \<lparr>status = 200, body = JObject
       [(''isValid'', JBool True),
        (''network'', JString ''solana-devnet''),
        (''amount'', JString ''1.5''),
        (''recipient'', JString ''Rcp1''),
        (''parsed'', JBool True)]\<rparr>
   \<and> fst (verify (example_env Map.empty True)
          (example_payload (Some ''AA=='') ''solana-devnet'' (Some ''1.5'')) []) =
     Inr \<lparr>status = 200, body = JObject
       [(''isValid'', JBool True),
        (''network'', JString ''solana-devnet''),
        (''amount'', JString ''1.5''),
        (''recipient'', JString ''Rcp1''),
        (''parsed'', JBool False)]\<rparr>"
proof -
  have reach: "Call_signTransaction tx \<in> set (snd (verify (example_env Map.empty True)
      (example_payload (Some tx) ''solana-devnet'' (Some ''1.5'')) []))" if "tx \<noteq> []" for tx
    using that by (simp add: verify_run example_simps)
  have ok: "signTransaction (example_env Map.empty True) tx = Inr ()" for tx
    by (simp add: example_simps)
  show ?thesis
    using relay_success_response [OF reach ok, of "''AQ==''"]
      relay_success_response [OF reach ok, of "''AA==''"]
    by (simp add: example_simps)
qed

text \<open>
  Claim C9. For every /verify request, a structural failure (missing transaction, missing
  metadata, rejected amount) is answered with status 400, and a relay rejection is
  answered with status 200, the default; both carry \<^verbatim>\<open>isValid:false\<close>, so the status is
  what tells the two apart.
\<close>

theorem verify_status_codes:
  "(structural_failure p \<longrightarrow>
      (\<exists>r tr'. verify E p tr = (Inr r, tr') \<and> status r = 400
         \<and> field ''isValid'' (body r) = Some (JBool False)))
   \<and> (\<not> structural_failure p \<and> signTransaction E (the (transaction p)) = Inl e \<longrightarrow>
      (\<exists>r tr'. verify E p tr = (Inr r, tr') \<and> status r = 200
         \<and> field ''isValid'' (body r) = Some (JBool False)
         \<and> field ''error'' (body r) = Some (JString ''Transaction validation failed'')))"
  by (cases "metadata p")
     (simp_all add: structural_failure_def verify_run field_def)

theorem verify_status_codes_witness:
  "(\<exists>r tr'. verify (example_env Map.empty False)
        (example_payload (Some ''AQ=='') ''solana-devnet'' (Some ''0'')) [] = (Inr r, tr')
      \<and> status r = 400 \<and> field ''isValid'' (body r) = Some (JBool False))
   \<and> (\<exists>r tr'. verify (example_env Map.empty False)
        (example_payload (Some ''AQ=='') ''solana-devnet'' (Some ''1.5'')) [] = (Inr r, tr')
      \<and> status r = 200 \<and> field ''isValid'' (body r) = Some (JBool False)
      \<and> field ''error'' (body r) = Some (JString ''Transaction validation failed''))"
  using
    verify_status_codes [of "example_payload (Some ''AQ=='') ''solana-devnet'' (Some ''0'')"
      "example_env Map.empty False" "[]" "Error ''relay unreachable''"]
    verify_status_codes [of "example_payload (Some ''AQ=='') ''solana-devnet'' (Some ''1.5'')"
      "example_env Map.empty False" "[]" "Error ''relay unreachable''"]
  by (simp add: structural_failure_def example_simps)

section \<open>/settle\<close>

text \<open>
  Claim C7, as the code has it. For every /settle request with a non-empty transaction, a
  failure of \<^verbatim>\<open>signAndSendTransaction\<close> is answered with status 500 and
  \<^verbatim>\<open>{success:false}\<close> carrying the error's message; a success is answered with
  \<^verbatim>\<open>{success:true}\<close> carrying the returned signature and an explorer link whose cluster
  part is the configured \<^verbatim>\<open>NETWORK\<close> with the first occurrence of \<^verbatim>\<open>solana-\<close> removed.
  When \<^verbatim>\<open>NETWORK\<close> starts with \<^verbatim>\<open>solana-\<close> that is \<^verbatim>\<open>NETWORK\<close> without the prefix.
\<close>

theorem settle_outcomes:
  assumes "\<not> falsy (transaction p)"
  shows "(signAndSendTransaction E (the (transaction p)) = Inl e \<longrightarrow>
            settle E p tr =
              (Inr \<lparr>status = 500, body = JObject
                 [(''success'', JBool False), (''error'', JString (message e))]\<rparr>,
               tr @ [Call_signAndSendTransaction (the (transaction p))]))
         \<and> (signAndSendTransaction E (the (transaction p)) = Inr sg \<longrightarrow>
            settle E p tr =
              (Inr \<lparr>status = 200, body = JObject
                 [(''success'', JBool True),
                  (''signature'', JString sg),
                  (''network'', JString (network p)),
                  (''explorerUrl'', JString (''https://explorer.solana.com/tx/'' @ sg
                     @ ''?cluster='' @ replace ''solana-'' [] (NETWORK E)))]\<rparr>,
               tr @ [Call_signAndSendTransaction (the (transaction p))]))
         \<and> (prefix ''solana-'' (NETWORK E) \<longrightarrow>
              replace ''solana-'' [] (NETWORK E) = spec_strip_prefix ''solana-'' (NETWORK E))"
  using assms by (simp add: settle_run replace_prefix spec_strip_prefix_def)

theorem settle_outcomes_witness:
  "settle (example_env Map.empty False)
      (example_payload (Some ''AQ=='') ''solana-devnet'' None) [] =
     (Inr \<lparr>status = 500, body = JObject
        [(''success'', JBool False), (''error'', JString ''relay unreachable'')]\<rparr>,
      [Call_signAndSendTransaction ''AQ==''])
   \<and> settle (example_env Map.empty True)
      (example_payload (Some ''AQ=='') ''solana-devnet'' None) [] =
     (Inr \<lparr>status = 200, body = JObject
        [(''success'', JBool True),
         (''signature'', JString ''5VERv8NMvzbJMEkV8xnrLkEaWRtSz9CosKDYjCJjBRnb''),
         (''network'', JString ''solana-devnet''),
         (''explorerUrl'', JString
            ''https://explorer.solana.com/tx/5VERv8NMvzbJMEkV8xnrLkEaWRtSz9CosKDYjCJjBRnb?cluster=devnet'')]\<rparr>,
      [Call_signAndSendTransaction ''AQ==''])
   \<and> spec_strip_prefix ''solana-'' (NETWORK (example_env Map.empty True)) = ''devnet''"
  using
    settle_outcomes [of "example_payload (Some ''AQ=='') ''solana-devnet'' None"
      "example_env Map.empty False" "Error ''relay unreachable''" "[]"
      "''5VERv8NMvzbJMEkV8xnrLkEaWRtSz9CosKDYjCJjBRnb''"]
    settle_outcomes [of "example_payload (Some ''AQ=='') ''solana-devnet'' None"
      "example_env Map.empty True" "Error ''relay unreachable''" "[]"
      "''5VERv8NMvzbJMEkV8xnrLkEaWRtSz9CosKDYjCJjBRnb''"]
  by (simp add: example_simps)

text \<open>
  Claim C7, as stated, fails: with \<^verbatim>\<open>NETWORK=test-solana-devnet\<close> the network name has no
  prefix \<^verbatim>\<open>solana-\<close> to strip, yet the cluster part of the link is \<^verbatim>\<open>test-devnet\<close>.
\<close>

theorem cluster_prefix_counterexample:
  "spec_strip_prefix ''solana-''
      (NETWORK (example_env [''NETWORK'' \<mapsto> ''test-solana-devnet''] True))
     = ''test-solana-devnet''
   \<and> settle (example_env [''NETWORK'' \<mapsto> ''test-solana-devnet''] True)
        (example_payload (Some ''AQ=='') ''test-solana-devnet'' None) [] =
     (Inr \<lparr>status = 200, body = JObject
        [(''success'', JBool True),
         (''signature'', JString ''5VERv8NMvzbJMEkV8xnrLkEaWRtSz9CosKDYjCJjBRnb''),
         (''network'', JString ''test-solana-devnet''),
         (''explorerUrl'', JString
            ''https://explorer.solana.com/tx/5VERv8NMvzbJMEkV8xnrLkEaWRtSz9CosKDYjCJjBRnb?cluster=test-devnet'')]\<rparr>,
      [Call_signAndSendTransaction ''AQ==''])"
  by (simp add: spec_strip_prefix_def settle_run example_simps)

text \<open>
  Claim C10. For every successful /settle request the \<^verbatim>\<open>network\<close> field of the response
  is the payload's network string, while the cluster of \<^verbatim>\<open>explorerUrl\<close> comes from the
  configured \<^verbatim>\<open>NETWORK\<close>; and there is a request, with a payload network other than the
  configured one, whose response names \<^verbatim>\<open>solana-mainnet\<close> in one field and the cluster
  \<^verbatim>\<open>devnet\<close> in the other.
\<close>

theorem settle_network_and_cluster:
  "(\<not> falsy (transaction p) \<and> signAndSendTransaction E (the (transaction p)) = Inr sg \<longrightarrow>
      (\<exists>r tr'. settle E p tr = (Inr r, tr')
         \<and> field ''network'' (body r) = Some (JString (network p))
         \<and> field ''explorerUrl'' (body r) =
             Some (JString (''https://explorer.solana.com/tx/'' @ sg
               @ ''?cluster='' @ replace ''solana-'' [] (NETWORK E)))))
   \<and> (\<exists>r tr'. settle (example_env Map.empty True)
          (example_payload (Some ''AQ=='') ''solana-mainnet'' None) [] = (Inr r, tr')
        \<and> NETWORK (example_env Map.empty True) = ''solana-devnet''
        \<and> field ''network'' (body r) = Some (JString ''solana-mainnet'')
        \<and> field ''explorerUrl'' (body r) = Some (JString
            ''https://explorer.solana.com/tx/5VERv8NMvzbJMEkV8xnrLkEaWRtSz9CosKDYjCJjBRnb?cluster=devnet''))"
  by (simp add: settle_run field_def example_simps)

theorem settle_network_and_cluster_witness:
  "\<exists>r tr'. settle (example_env [''NETWORK'' \<mapsto> ''test-solana-devnet''] True)
        (example_payload (Some ''AA=='') ''solana-testnet'' None) [] = (Inr r, tr')
      \<and> field ''network'' (body r) = Some (JString ''solana-testnet'')
      \<and> field ''explorerUrl'' (body r) = Some (JString
          ''https://explorer.solana.com/tx/5VERv8NMvzbJMEkV8xnrLkEaWRtSz9CosKDYjCJjBRnb?cluster=test-devnet'')"
  using settle_network_and_cluster [of
      "example_payload (Some ''AA=='') ''solana-testnet'' None"
      "example_env [''NETWORK'' \<mapsto> ''test-solana-devnet''] True"
      "''5VERv8NMvzbJMEkV8xnrLkEaWRtSz9CosKDYjCJjBRnb''" "[]"]
  by (simp add: example_simps)

section \<open>/supported\<close>

text \<open>
  Claim C8. Every GET /supported response is a 200 whose \<^verbatim>\<open>network\<close> is the configured
  \<^verbatim>\<open>NETWORK\<close>, whose \<^verbatim>\<open>paymentScheme\<close> is \<^verbatim>\<open>"exact"\<close> and whose \<^verbatim>\<open>tokens\<close> is a list
  of at least one token. In mock mode \<^verbatim>\<open>feePayer\<close> comes from the configuration and the
  relay is not queried; otherwise the relay is queried once, and when the query fails
  \<^verbatim>\<open>feePayer\<close> is \<^verbatim>\<open>"UnknownPayerAddress"\<close> and the response is otherwise the same.
\<close>

theorem supported_response:
  "\<exists>r. supported E tr = (Inr r, tr @ (if MOCK_MODE E then [] else [Call_getPayerSigner]))
       \<and> status r = 200
       \<and> field ''network'' (body r) = Some (JString (NETWORK E))
       \<and> field ''paymentScheme'' (body r) = Some (JString ''exact'')
       \<and> (\<exists>ts. field ''tokens'' (body r) = Some (JArray ts) \<and> 1 \<le> length ts)
       \<and> field ''feePayer'' (body r) = Some (JString
           (if MOCK_MODE E then
              env_or E ''KORA_SIGNER_ADDRESS'' ''MockPayerAddress11111111111111111111111111''
            else case getPayerSigner E of
                   Inl _ \<Rightarrow> ''UnknownPayerAddress''
                 | Inr a \<Rightarrow> a))"
  by (simp add: supported_run field_def)

theorem supported_response_witness:
  "(\<exists>r. supported (example_env Map.empty False) [] = (Inr r, [Call_getPayerSigner])
       \<and> status r = 200
       \<and> field ''network'' (body r) = Some (JString ''solana-devnet'')
       \<and> field ''paymentScheme'' (body r) = Some (JString ''exact'')
       \<and> (\<exists>ts. field ''tokens'' (body r) = Some (JArray ts) \<and> 1 \<le> length ts)
       \<and> field ''feePayer'' (body r) = Some (JString ''UnknownPayerAddress''))
   \<and> (\<exists>r. supported (example_env [''MOCK_MODE'' \<mapsto> ''true''] False) [] = (Inr r, [])
       \<and> status r = 200
       \<and> field ''network'' (body r) = Some (JString ''solana-devnet'')
       \<and> field ''paymentScheme'' (body r) = Some (JString ''exact'')
       \<and> (\<exists>ts. field ''tokens'' (body r) = Some (JArray ts) \<and> 1 \<le> length ts)
       \<and> field ''feePayer'' (body r) =
           Some (JString ''MockPayerAddress11111111111111111111111111''))"
  using supported_response [of "example_env Map.empty False" "[]"]
    supported_response [of "example_env [''MOCK_MODE'' \<mapsto> ''true''] False" "[]"]
  by (simp add: example_simps NETWORK_def env_or_def)

end
